theory Spec2Isabelle
  imports Complex_Main "HOL-Library.Sublist"
begin

section \<open>Python strings\<close>

text \<open>
  A Python \<open>str\<close> is a sequence of code points. The model takes the code points
  \<open>0 .. 255\<close> (type \<^typ>\<open>char\<close>), and gives every character class the members
  Python gives it on that range: \<open>str.isspace\<close> (which is also what \<open>\<bsol>s\<close> matches in
  a \<open>str\<close> pattern and what \<open>str.strip()\<close> removes), \<open>\<bsol>w\<close>, and \<open>str.lower\<close>.
\<close>

definition isspace :: "char \<Rightarrow> bool" where
  "isspace c =
     (let n = (of_char c :: nat)
      in (9 \<le> n \<and> n \<le> 13) \<or> (28 \<le> n \<and> n \<le> 32) \<or> n = 133 \<or> n = 160)"

definition isword :: "char \<Rightarrow> bool" where
  "isword c =
     (let n = (of_char c :: nat)
      in (48 \<le> n \<and> n \<le> 57) \<or> (65 \<le> n \<and> n \<le> 90) \<or> n = 95 \<or> (97 \<le> n \<and> n \<le> 122)
         \<or> n = 170 \<or> n = 178 \<or> n = 179 \<or> n = 181 \<or> n = 185 \<or> n = 186
         \<or> (188 \<le> n \<and> n \<le> 190) \<or> (192 \<le> n \<and> n \<le> 214)
         \<or> (216 \<le> n \<and> n \<le> 246) \<or> (248 \<le> n \<and> n \<le> 255))"

definition lower_char :: "char \<Rightarrow> char" where
  "lower_char c =
     (let n = (of_char c :: nat)
      in if (65 \<le> n \<and> n \<le> 90) \<or> (192 \<le> n \<and> n \<le> 214) \<or> (216 \<le> n \<and> n \<le> 222)
         then char_of (n + 32) else c)"

text \<open>\<open>s.lower()\<close>\<close>

definition lower :: "string \<Rightarrow> string" where
  "lower s = map lower_char s"

text \<open>\<open>s.strip()\<close>: leading and trailing whitespace removed.\<close>

definition strip :: "string \<Rightarrow> string" where
  "strip s = rev (dropWhile isspace (rev (dropWhile isspace s)))"

text \<open>\<open>s.startswith(p)\<close>\<close>

definition startswith :: "string \<Rightarrow> string \<Rightarrow> bool" where
  "startswith s p = (take (length p) s = p)"

text \<open>\<open>sub in s\<close>: \<open>sub\<close> occurs in \<open>s\<close> as a contiguous substring.\<close>

fun contains :: "string \<Rightarrow> string \<Rightarrow> bool" where
  "contains sub [] = (sub = [])"
| "contains sub (c # cs) = (startswith (c # cs) sub \<or> contains sub cs)"

text \<open>\<open>text.split('\n')\<close>: the pieces between line feeds; never an empty list.\<close>

fun split_nl :: "string \<Rightarrow> string list" where
  "split_nl [] = [[]]"
| "split_nl (c # cs) =
     (if c = CHR 0x0A then [] # split_nl cs
      else (case split_nl cs of [] \<Rightarrow> [[c]] | l # ls \<Rightarrow> (c # l) # ls))"

text \<open>\<open>sep.join(xs)\<close>\<close>

fun join :: "string \<Rightarrow> string list \<Rightarrow> string" where
  "join sep [] = []"
| "join sep [x] = x"
| "join sep (x # y # ys) = x @ sep @ join sep (y # ys)"

text \<open>\<open>str(n)\<close> of a non-negative integer, as an f-string prints a \<open>len(...)\<close>.\<close>

function str_nat :: "nat \<Rightarrow> string" where
  "str_nat n =
     (if n < 10 then [char_of (48 + n)]
      else str_nat (n div 10) @ [char_of (48 + n mod 10)])"
  by pat_completeness auto
termination
  by (relation "measure id") auto

declare str_nat.simps [simp del]

section \<open>The regular expressions of \<open>extract_code_context\<close>\<close>

text \<open>
  \<open>re.sub(r'^[#/]+\s*', '', line)\<close>. Without \<open>re.MULTILINE\<close> the anchor matches at
  position 0 only, so at most one match is replaced: the longest run of \<open>#\<close> and \<open>/\<close>
  at the start (at least one), then the whitespace after it. A line that starts with
  neither is returned as it is.
\<close>

definition is_marker :: "char \<Rightarrow> bool" where
  "is_marker c = (c = CHR ''#'' \<or> c = CHR ''/'')"

definition sub_marker :: "string \<Rightarrow> string" where
  "sub_marker line =
     (if takeWhile is_marker line = [] then line
      else dropWhile isspace (dropWhile is_marker line))"

text \<open>
  \<open>def\s+(\w+)\<close> tried at the start of \<open>l\<close>: the literal \<open>def\<close>, the longest run of
  whitespace (at least one), the longest run of word characters (at least one), which
  is group 1. No character is both whitespace and a word character, so giving back
  part of a greedy run never turns a failure into a match.
\<close>

definition def_at :: "string \<Rightarrow> string option" where
  "def_at l =
     (if startswith l ''def'' then
        (let r = drop 3 l;
             ws = takeWhile isspace r;
             g = takeWhile isword (dropWhile isspace r)
         in if ws \<noteq> [] \<and> g \<noteq> [] then Some g else None)
      else None)"

text \<open>\<open>re.search(r'def\s+(\w+)', line)\<close>: the leftmost position where the pattern
  matches; the result is \<open>group(1)\<close>.\<close>

fun func_match :: "string \<Rightarrow> string option" where
  "func_match [] = None"
| "func_match (c # cs) =
     (case def_at (c # cs) of Some g \<Rightarrow> Some g | None \<Rightarrow> func_match cs)"

text \<open>
  \<open>re.search(r'^(\w+)\s*=', line)\<close>: anchored at position 0; the longest run of word
  characters (at least one, group 1), the whitespace after it, then \<open>=\<close>.
\<close>

definition var_match :: "string \<Rightarrow> string option" where
  "var_match line =
     (let g = takeWhile isword line;
          r = dropWhile isspace (dropWhile isword line)
      in if g \<noteq> [] \<and> startswith r ''='' then Some g else None)"

section \<open>\<open>EmotionCodeReviewer.extract_code_context\<close>\<close>

record code_context =
  comments :: "string list"
  functions_ctx :: "string list"
  variables :: "string list"
  todo_items :: "string list"

definition empty_context :: code_context where
  "empty_context = \<lparr>comments = [], functions_ctx = [], variables = [], todo_items = []\<rparr>"

text \<open>\<open>line.startswith('#') or line.startswith('//')\<close>\<close>

definition is_comment :: "string \<Rightarrow> bool" where
  "is_comment line = (startswith line ''#'' \<or> startswith line ''//'')"

text \<open>\<open>'todo' in comment.lower() or 'fixme' in comment.lower()\<close>\<close>

definition is_todo :: "string \<Rightarrow> bool" where
  "is_todo comment = (contains ''todo'' (lower comment) \<or> contains ''fixme'' (lower comment))"

text \<open>The comment branch of the loop body, on the stripped line.\<close>

definition scan_comment :: "string \<Rightarrow> code_context \<Rightarrow> code_context" where
  "scan_comment line ctx =
     (if is_comment line then
        (let comment = sub_marker line;
             ctx1 = ctx\<lparr>comments := comments ctx @ [comment]\<rparr>
         in if is_todo comment
            then ctx1\<lparr>todo_items := todo_items ctx1 @ [comment]\<rparr>
            else ctx1)
      else ctx)"

definition scan_function :: "string \<Rightarrow> code_context \<Rightarrow> code_context" where
  "scan_function line ctx =
     (case func_match line of
        Some name \<Rightarrow> ctx\<lparr>functions_ctx := functions_ctx ctx @ [name]\<rparr>
      | None \<Rightarrow> ctx)"

definition scan_variable :: "string \<Rightarrow> code_context \<Rightarrow> code_context" where
  "scan_variable line ctx =
     (case var_match line of
        Some name \<Rightarrow> ctx\<lparr>variables := variables ctx @ [name]\<rparr>
      | None \<Rightarrow> ctx)"

text \<open>One iteration of \<open>for line in lines\<close>: the line is stripped, then the three
  checks run one after the other, each an \<open>if\<close> of its own.\<close>

definition scan_line :: "string \<Rightarrow> code_context \<Rightarrow> code_context" where
  "scan_line raw ctx =
     (let line = strip raw
      in scan_variable line (scan_function line (scan_comment line ctx)))"

definition extract_code_context :: "string \<Rightarrow> code_context" where
  "extract_code_context code_text = fold scan_line (split_nl code_text) empty_context"

section \<open>\<open>EmotionCodeReviewer.analyze_developer_emotion\<close>\<close>

text \<open>
  The two pipelines are external: one call takes the text and either raises or returns
  a list of predictions, each with a \<open>label\<close> and a \<open>score\<close>. A raised exception is an
  instance of \<open>Exception\<close> (what \<open>except Exception\<close> catches), or it derives from
  \<open>BaseException\<close> only, as \<open>KeyboardInterrupt\<close> and \<open>SystemExit\<close> do; the string is
  \<open>str(e)\<close>. The scores are passed on untouched, so a float is a \<^typ>\<open>real\<close> here.
\<close>

datatype pyexn = Exception string | BaseException string

record prediction =
  label :: string
  score :: real

type_synonym pipeline = "string \<Rightarrow> pyexn + prediction list"

datatype pyval = Str string | Float real

text \<open>A dict literal, in insertion order; \<open>d.get(k, default)\<close>.\<close>

type_synonym pydict = "(string \<times> pyval) list"

definition dict_get :: "pydict \<Rightarrow> string \<Rightarrow> pyval \<Rightarrow> pyval" where
  "dict_get d k dflt = (case map_of d k of Some v \<Rightarrow> v | None \<Rightarrow> dflt)"

text \<open>What a call does besides returning: the calls of the two models and the texts
  written by \<open>print\<close>, in order.\<close>

datatype event = Emotion_model string | Sentiment_model string | Print string

definition neutral_default :: pydict where
  "neutral_default =
     [(''emotion'', Str ''neutral''), (''sentiment'', Str ''neutral''),
      (''confidence'', Float 0.5)]"

text \<open>\<open>xs[0]\<close>: \<open>IndexError\<close> on an empty list.\<close>

definition first :: "prediction list \<Rightarrow> pyexn + prediction" where
  "first xs =
     (case xs of [] \<Rightarrow> Inl (Exception ''list index out of range'') | x # _ \<Rightarrow> Inr x)"

text \<open>
  \<open>print(s)\<close> writes to the standard output, which is external too: \<open>stdout s\<close> is
  \<open>None\<close> when the text is written, and the exception when the write raises, as it does
  with \<open>UnicodeEncodeError\<close> for a text the stream's encoding cannot represent. A write
  that raises leaves no \<open>Print\<close> event.
\<close>

type_synonym stdout = "string \<Rightarrow> pyexn option"

text \<open>The \<open>except Exception as e\<close> clause, entered after the events \<open>evs\<close>: for an
  instance of \<open>Exception\<close> the diagnostic is printed and then the neutral default is
  returned; the \<open>print\<close> stands unguarded in the handler, so what it raises goes on to
  the caller. Anything that is not an instance of \<open>Exception\<close> goes on to the caller.\<close>

definition except_Exception ::
  "stdout \<Rightarrow> event list \<Rightarrow> pyexn \<Rightarrow> event list \<times> (pyexn + pydict)" where
  "except_Exception stdout evs e =
     (case e of
        Exception msg \<Rightarrow>
          (case stdout ('' Analysis error: '' @ msg) of
             None \<Rightarrow> (evs @ [Print ('' Analysis error: '' @ msg)], Inr neutral_default)
           | Some e' \<Rightarrow> (evs, Inl e'))
      | BaseException msg \<Rightarrow> (evs, Inl e))"

definition analyze_developer_emotion ::
  "stdout \<Rightarrow> pipeline \<Rightarrow> pipeline \<Rightarrow> string list \<Rightarrow> event list \<times> (pyexn + pydict)" where
  "analyze_developer_emotion stdout emotion_classifier sentiment_analyzer text_elements =
     (if text_elements = [] then ([], Inr neutral_default)
      else
        (let combined_text = join '' '' text_elements;
             evs1 = [Emotion_model combined_text];
             evs2 = evs1 @ [Sentiment_model combined_text]
         in case emotion_classifier combined_text of
              Inl e \<Rightarrow> except_Exception stdout evs1 e
            | Inr ers \<Rightarrow>
               (case first ers of
                  Inl e \<Rightarrow> except_Exception stdout evs1 e
                | Inr emotion_result \<Rightarrow>
                   (case sentiment_analyzer combined_text of
                      Inl e \<Rightarrow> except_Exception stdout evs2 e
                    | Inr srs \<Rightarrow>
                       (case first srs of
                          Inl e \<Rightarrow> except_Exception stdout evs2 e
                        | Inr sentiment_result \<Rightarrow>
                           (evs2,
                            Inr [(''emotion'', Str (lower (label emotion_result))),
                                 (''emotion_confidence'', Float (score emotion_result)),
                                 (''sentiment'', Str (lower (label sentiment_result))),
                                 (''sentiment_confidence'',
                                    Float (score sentiment_result))]))))))"

section \<open>\<open>EmotionCodeReviewer.generate_personalized_feedback\<close>\<close>

record feedback =
  emotional_insights :: "string list"
  code_suggestions :: "string list"
  motivational_notes :: "string list"
  technical_recommendations :: "string list"

definition empty_feedback :: feedback where
  "empty_feedback =
     \<lparr>emotional_insights = [], code_suggestions = [], motivational_notes = [],
      technical_recommendations = []\<rparr>"

definition msg_annoyed :: string where
  "msg_annoyed =
     '' Sounds like your kinda annoyed in your comments. Just chill out - '' @
     ''coding problems are good for you!''"

definition msg_getting_there :: string where
  "msg_getting_there = '' Remeber: everyone good at this was bad once. Ur getting there!''"

definition msg_good_vibe :: string where
  "msg_good_vibe =
     '' Really good vibe in your code! Your happy feelings comes through in comments.''"

definition msg_hard_time :: string where
  "msg_hard_time =
     '' Looks like your having a hard time coding. '' @
     ''Take a break, or ask for help, don'' @ [CHR 0x27] @ ''t be shy!''"

definition msg_more_comments :: string where
  "msg_more_comments =
     '' Maybe put more comments in to say what your doing - '' @
     ''you (and your friends) will be happy later!''"

definition msg_todo :: "nat \<Rightarrow> string" where
  "msg_todo n =
     '' You got '' @ str_nat n @ '' TODO stuff to do. '' @
     ''How about doin'' @ [CHR 0x27] @ '' some of those first, then adding new things?''"

definition msg_bad_things :: string where
  "msg_bad_things =
     '' I see you saying bad things about your code. Try to make it better '' @
     ''instead of being mean to yourself!''"

definition msg_longer_names :: "string list \<Rightarrow> string" where
  "msg_longer_names short_vars =
     '' Try to use longer names for variables like: '' @ join '', '' (take 3 short_vars)"

text \<open>The \<open>if\<close>/\<open>elif\<close> chain on the emotion label.\<close>

definition rule_emotion :: "pyval \<Rightarrow> feedback \<Rightarrow> feedback" where
  "rule_emotion emotion fb =
     (if emotion \<in> set [Str ''anger'', Str ''frustration''] then
        fb\<lparr>emotional_insights := emotional_insights fb @ [msg_annoyed],
           motivational_notes := motivational_notes fb @ [msg_getting_there]\<rparr>
      else if emotion = Str ''joy'' then
        fb\<lparr>emotional_insights := emotional_insights fb @ [msg_good_vibe]\<rparr>
      else if emotion = Str ''sadness'' then
        fb\<lparr>emotional_insights := emotional_insights fb @ [msg_hard_time]\<rparr>
      else fb)"

definition rule_no_comments :: "code_context \<Rightarrow> feedback \<Rightarrow> feedback" where
  "rule_no_comments ctx fb =
     (if length (comments ctx) = 0
      then fb\<lparr>code_suggestions := code_suggestions fb @ [msg_more_comments]\<rparr>
      else fb)"

definition rule_todo :: "code_context \<Rightarrow> feedback \<Rightarrow> feedback" where
  "rule_todo ctx fb =
     (if length (todo_items ctx) > 3
      then fb\<lparr>code_suggestions :=
                code_suggestions fb @ [msg_todo (length (todo_items ctx))]\<rparr>
      else fb)"

definition rule_bad_words :: "code_context \<Rightarrow> feedback \<Rightarrow> feedback" where
  "rule_bad_words ctx fb =
     (if list_ex (\<lambda>word. contains word (lower (join '' '' (comments ctx))))
           [''hack'', ''dirty'', ''terrible'', ''broken'']
      then fb\<lparr>technical_recommendations :=
                technical_recommendations fb @ [msg_bad_things]\<rparr>
      else fb)"

definition short_vars :: "code_context \<Rightarrow> string list" where
  "short_vars ctx = filter (\<lambda>v. length v \<le> 2) (variables ctx)"

definition rule_short_vars :: "code_context \<Rightarrow> feedback \<Rightarrow> feedback" where
  "rule_short_vars ctx fb =
     (if variables ctx \<noteq> [] then
        (if length (short_vars ctx) > 2
         then fb\<lparr>technical_recommendations :=
                   technical_recommendations fb @ [msg_longer_names (short_vars ctx)]\<rparr>
         else fb)
      else fb)"

definition generate_personalized_feedback ::
  "code_context \<Rightarrow> pydict \<Rightarrow> string \<Rightarrow> feedback" where
  "generate_personalized_feedback ctx emotion_analysis commit_msg =
     (let emotion = dict_get emotion_analysis ''emotion'' (Str ''neutral'');
          sentiment = dict_get emotion_analysis ''sentiment'' (Str ''neutral'')
      in rule_short_vars ctx
           (rule_bad_words ctx
              (rule_todo ctx
                 (rule_no_comments ctx
                    (rule_emotion emotion empty_feedback)))))"

section \<open>\<open>EmotionCodeReviewer.review_code\<close>\<close>

record code_metrics =
  comments_count :: nat
  functions_count :: nat
  todo_count :: nat

record report =
  developer :: string
  timestamp :: string
  emotion_analysis :: pydict
  code_metrics :: code_metrics
  feedback :: feedback

text \<open>\<open>context['comments'] + [commit_message] if commit_message else context['comments']\<close>:
  the conditional expression binds weaker than \<open>+\<close>.\<close>

definition text_for_analysis :: "code_context \<Rightarrow> string \<Rightarrow> string list" where
  "text_for_analysis ctx commit_message =
     (if commit_message \<noteq> [] then comments ctx @ [commit_message] else comments ctx)"

text \<open>\<open>now\<close> is what \<open>datetime.now().isoformat()\<close> returns when the report is put
  together. The greeting is printed first; when that \<open>print\<close> raises, nothing else
  runs.\<close>

definition review_code ::
  "stdout \<Rightarrow> pipeline \<Rightarrow> pipeline \<Rightarrow> string \<Rightarrow> string \<Rightarrow> string \<Rightarrow> string
     \<Rightarrow> event list \<times> (pyexn + report)" where
  "review_code stdout emotion_classifier sentiment_analyzer now code_text commit_message
       developer_name =
     (let hello = [CHR 0x0A] @ '' Looking at code for '' @ developer_name @ ''...''
      in case stdout hello of
           Some e \<Rightarrow> ([], Inl e)
         | None \<Rightarrow>
            (let ctx = extract_code_context code_text;
                 (evs, res) = analyze_developer_emotion stdout emotion_classifier
                                sentiment_analyzer (text_for_analysis ctx commit_message)
             in case res of
                  Inl e \<Rightarrow> (Print hello # evs, Inl e)
                | Inr analysis \<Rightarrow>
                   (Print hello # evs,
                    Inr \<lparr>developer = developer_name,
                         timestamp = now,
                         emotion_analysis = analysis,
                         code_metrics =
                           \<lparr>comments_count = length (comments ctx),
                            functions_count = length (functions_ctx ctx),
                            todo_count = length (todo_items ctx)\<rparr>,
                         feedback =
                           generate_personalized_feedback ctx analysis commit_message\<rparr>)))"

section \<open>Test doubles for the pipelines and the standard output\<close>

text \<open>Stand-ins for the external models, used in the examples: two that answer, one
  that is interrupted from the keyboard, two that fail with an ordinary error, the
  second with a text outside ASCII (\<open>caf\<close> and the code point \<open>0xE9\<close>).\<close>

definition says_joy :: pipeline where
  "says_joy text = Inr [\<lparr>label = ''joy'', score = 0.9\<rparr>]"

definition says_positive :: pipeline where
  "says_positive text = Inr [\<lparr>label = ''POSITIVE'', score = 0.8\<rparr>]"




text \<open>Two standard outputs: one that writes every text, one with the ASCII encoding,
  where writing a code point from 128 on raises \<open>UnicodeEncodeError\<close>.\<close>

definition utf8_stdout :: stdout where
  "utf8_stdout s = None"

definition ascii_stdout :: stdout where
  "ascii_stdout s =
     (if list_all (\<lambda>c. (of_char c :: nat) < 128) s then None
      else Some (Exception ''ascii codec cannot encode character''))"

section \<open>Facts about the string operations\<close>

lemma isspace_not_isword: "isspace c \<Longrightarrow> \<not> isword c"
  by (auto simp: isspace_def isword_def Let_def)

lemma comments_scan_line:
  "comments (scan_line raw ctx) =
     comments ctx @ (if is_comment (strip raw) then [sub_marker (strip raw)] else [])"
  by (simp add: scan_line_def scan_variable_def scan_function_def scan_comment_def Let_def
      split: option.splits)

lemma todo_items_scan_line:
  "todo_items (scan_line raw ctx) =
     todo_items ctx @
       (if is_comment (strip raw) \<and> is_todo (sub_marker (strip raw))
        then [sub_marker (strip raw)] else [])"
  by (simp add: scan_line_def scan_variable_def scan_function_def scan_comment_def Let_def
      split: option.splits)

lemma functions_scan_line:
  "functions_ctx (scan_line raw ctx) =
     functions_ctx ctx @ (case func_match (strip raw) of Some name \<Rightarrow> [name] | None \<Rightarrow> [])"
  by (simp add: scan_line_def scan_variable_def scan_function_def scan_comment_def Let_def
      split: option.splits)

lemma variables_scan_line:
  "variables (scan_line raw ctx) =
     variables ctx @ (case var_match (strip raw) of Some name \<Rightarrow> [name] | None \<Rightarrow> [])"
  by (simp add: scan_line_def scan_variable_def scan_function_def scan_comment_def Let_def
      split: option.splits)

lemma comments_fold:
  "comments (fold scan_line ls ctx) =
     comments ctx @ map sub_marker (filter is_comment (map strip ls))"
  by (induction ls arbitrary: ctx) (simp_all add: comments_scan_line)

lemma todo_items_fold:
  "todo_items (fold scan_line ls ctx) =
     todo_items ctx @ filter is_todo (map sub_marker (filter is_comment (map strip ls)))"
  by (induction ls arbitrary: ctx) (simp_all add: todo_items_scan_line)

lemma functions_fold:
  "functions_ctx (fold scan_line ls ctx) =
     functions_ctx ctx @ List.map_filter func_match (map strip ls)"
  by (induction ls arbitrary: ctx)
     (simp_all add: functions_scan_line split: option.splits)

lemma variables_fold:
  "variables (fold scan_line ls ctx) =
     variables ctx @ List.map_filter var_match (map strip ls)"
  by (induction ls arbitrary: ctx)
     (simp_all add: variables_scan_line split: option.splits)

lemma var_match_comment: "is_comment l \<Longrightarrow> var_match l = None"
  by (cases l) (auto simp: is_comment_def var_match_def startswith_def isword_def Let_def)

lemma map_filter_var_match_skip_comments:
  "List.map_filter var_match ls = List.map_filter var_match (filter (\<lambda>l. \<not> is_comment l) ls)"
  by (induction ls) (auto simp: var_match_comment split: option.splits)

lemma dropWhile_all: "list_all P xs \<Longrightarrow> dropWhile P (xs @ ys) = dropWhile P ys"
  by (induction xs) simp_all

lemma strip_indent: "list_all isspace indent \<Longrightarrow> strip (indent @ s) = strip s"
  by (simp add: strip_def dropWhile_all)

lemma takeWhile_run: "list_all P xs \<Longrightarrow> \<not> P y \<Longrightarrow> takeWhile P (xs @ y # ys) = xs"
  by (induction xs) simp_all

lemma dropWhile_run: "list_all P xs \<Longrightarrow> \<not> P y \<Longrightarrow> dropWhile P (xs @ y # ys) = y # ys"
  by (induction xs) simp_all

lemma not_isword_eq: "\<not> isword CHR ''=''"
  by (simp add: isword_def)

lemma not_isspace_eq: "\<not> isspace CHR ''=''"
  by (simp add: isspace_def)

lemma var_match_intro:
  assumes "v \<noteq> []" "list_all isword v" "list_all isspace ws"
  shows "var_match (v @ ws @ CHR ''='' # rest) = Some v"
proof -
  have tw: "takeWhile isword (v @ ws @ CHR ''='' # rest) = v"
    and dw: "dropWhile isword (v @ ws @ CHR ''='' # rest) = ws @ CHR ''='' # rest"
    using assms by (cases ws; simp add: takeWhile_run dropWhile_run not_isword_eq isspace_not_isword)+
  have "dropWhile isspace (ws @ CHR ''='' # rest) = CHR ''='' # rest"
    using assms(3) by (simp add: dropWhile_run not_isspace_eq)
  with tw dw assms(1) show ?thesis
    by (simp add: var_match_def startswith_def)
qed

lemma var_match_elim:
  assumes "var_match l = Some v"
  shows "v \<noteq> [] \<and> list_all isword v \<and>
         (\<exists>ws rest. list_all isspace ws \<and> l = v @ ws @ CHR ''='' # rest)"
proof -
  let ?r = "dropWhile isword l"
  from assms have v: "v = takeWhile isword l" and ne: "v \<noteq> []"
    and st: "startswith (dropWhile isspace ?r) ''=''"
    by (auto simp: var_match_def Let_def split: if_splits)
  from st obtain rest where r: "dropWhile isspace ?r = CHR ''='' # rest"
    by (cases "dropWhile isspace ?r") (auto simp: startswith_def)
  have "l = v @ takeWhile isspace ?r @ dropWhile isspace ?r"
    using v by simp
  with r have "l = v @ takeWhile isspace ?r @ CHR ''='' # rest" by simp
  moreover have "list_all isspace (takeWhile isspace ?r)"
    by (simp add: list_all_iff) (meson set_takeWhileD)
  moreover have "list_all isword v"
    unfolding v by (simp add: list_all_iff) (meson set_takeWhileD)
  ultimately show ?thesis using ne by blast
qed

lemma takeWhile_all: "list_all P (takeWhile P xs)"
  by (induction xs) simp_all

lemma def_at_Some: "def_at l = Some g \<Longrightarrow> g \<noteq> [] \<and> list_all isword g"
  by (auto simp: def_at_def Let_def takeWhile_all split: if_splits)

lemma func_match_Some: "func_match l = Some g \<Longrightarrow> g \<noteq> [] \<and> list_all isword g"
  by (induction l) (auto dest: def_at_Some split: option.splits)

lemma def_at_intro:
  assumes "ws \<noteq> []" "list_all isspace ws" "ident \<noteq> []" "list_all isword ident"
  shows "def_at (''def'' @ ws @ ident @ post) = Some (ident @ takeWhile isword post)"
proof -
  from assms(3) obtain i is' where ident: "ident = i # is'" by (cases ident) auto
  with assms(4) have ni: "\<not> isspace i" using isspace_not_isword by auto
  have tw: "takeWhile isspace (ws @ ident @ post) = ws"
    and dw: "dropWhile isspace (ws @ ident @ post) = ident @ post"
    using assms(2) ni by (simp_all add: ident takeWhile_run dropWhile_run)
  have "takeWhile isword (ident @ post) = ident @ takeWhile isword post"
    using assms(4) by (simp add: takeWhile_append2 list_all_iff)
  with tw dw assms(1,3) show ?thesis
    by (simp add: def_at_def startswith_def)
qed

lemma func_match_intro:
  assumes "ws \<noteq> []" "list_all isspace ws" "ident \<noteq> []" "list_all isword ident"
  shows "\<exists>name. func_match (pre @ ''def'' @ ws @ ident @ post) = Some name"
proof (induction pre)
  case Nil
  have "def_at (''def'' @ ws @ ident @ post) = Some (ident @ takeWhile isword post)"
    by (rule def_at_intro [OF assms])
  then show ?case by simp
next
  case (Cons c pre)
  then show ?case by (cases "def_at (c # pre @ ''def'' @ ws @ ident @ post)") auto
qed

lemma dropWhile_keep:
  "ys \<noteq> [] \<Longrightarrow> \<not> P (hd ys) \<Longrightarrow> \<exists>xs'. dropWhile P (xs @ ys) = xs' @ ys"
proof (induction xs)
  case Nil
  then show ?case by (cases ys) auto
next
  case (Cons x xs)
  then show ?case by (cases "P x") (auto intro: exI [of _ "x # xs"])
qed

lemma strip_keep:
  assumes "mid \<noteq> []" "\<not> isspace (hd mid)" "\<not> isspace (last mid)"
  shows "\<exists>pre' post'. strip (pre @ mid @ post) = pre' @ mid @ post'"
proof -
  from dropWhile_keep [of "mid @ post" isspace pre] assms(1,2)
  obtain pre' where a: "dropWhile isspace (pre @ mid @ post) = pre' @ mid @ post"
    by auto
  from dropWhile_keep [of "rev mid @ rev pre'" isspace "rev post"] assms(1,3)
  obtain xs' where b: "dropWhile isspace (rev post @ rev mid @ rev pre') = xs' @ rev mid @ rev pre'"
    by (auto simp: hd_rev)
  have "strip (pre @ mid @ post) = pre' @ mid @ rev xs'"
    by (simp add: strip_def a b)
  then show ?thesis by blast
qed

lemma strip_keep_front:
  assumes "mid \<noteq> []" "\<not> isspace (hd mid)" "\<not> isspace (last mid)"
  shows "\<exists>post'. strip (mid @ post) = mid @ post'"
proof -
  from assms(1,2) have a: "dropWhile isspace (mid @ post) = mid @ post"
    by (cases mid) auto
  from dropWhile_keep [of "rev mid" isspace "rev post"] assms(1,3)
  obtain xs' where b: "dropWhile isspace (rev post @ rev mid) = xs' @ rev mid"
    by (auto simp: hd_rev)
  have "strip (mid @ post) = mid @ rev xs'"
    by (simp add: strip_def a b)
  then show ?thesis by blast
qed

lemma map_filter_member: "x \<in> set xs \<Longrightarrow> f x = Some y \<Longrightarrow> y \<in> set (List.map_filter f xs)"
  by (force simp: List.map_filter_def)

lemma count_list_map_filter:
  "count_list (List.map_filter f xs) y = length (filter (\<lambda>x. f x = Some y) xs)"
  by (induction xs) (auto split: option.splits)

lemma count_list_le_filter: "P y \<Longrightarrow> count_list xs y \<le> length (filter P xs)"
  by (induction xs) auto

lemma split_nl_single: "CHR 0x0A \<notin> set s \<Longrightarrow> split_nl s = [s]"
  by (induction s) auto

section \<open>The claims\<close>

text \<open>
  C5. For every input text, the TODO items are the comments whose body contains
  \<open>todo\<close> or \<open>fixme\<close> in any letter case, in the order of the comments: a
  subsequence of the comments, so never longer than them.
\<close>

theorem todo_items_subseq_comments:
  "todo_items (extract_code_context text) = filter is_todo (comments (extract_code_context text))
   \<and> subseq (todo_items (extract_code_context text)) (comments (extract_code_context text))
   \<and> length (todo_items (extract_code_context text))
       \<le> length (comments (extract_code_context text))"
proof -
  have eq: "todo_items (extract_code_context text) =
            filter is_todo (comments (extract_code_context text))"
    by (simp add: extract_code_context_def todo_items_fold comments_fold empty_context_def)
  show ?thesis
    by (subst (1 2 3) eq) simp
qed

theorem todo_items_subseq_comments_witness:
  "todo_items (extract_code_context (''# TODO: fix this'' @ [CHR 0x0A] @ ''# plain'' @ [CHR 0x0A] @ ''//FixMe now''))
     = [''TODO: fix this'', ''FixMe now'']
   \<and> comments (extract_code_context (''# TODO: fix this'' @ [CHR 0x0A] @ ''# plain'' @ [CHR 0x0A] @ ''//FixMe now''))
     = [''TODO: fix this'', ''plain'', ''FixMe now'']
   \<and> subseq [''TODO: fix this'', ''FixMe now''] [''TODO: fix this'', ''plain'', ''FixMe now'']"
proof -
  let ?t = "''# TODO: fix this'' @ [CHR 0x0A] @ ''# plain'' @ [CHR 0x0A] @ ''//FixMe now''"
  have c: "comments (extract_code_context ?t) = [''TODO: fix this'', ''plain'', ''FixMe now'']"
    by code_simp
  have t: "todo_items (extract_code_context ?t) = [''TODO: fix this'', ''FixMe now'']"
    by code_simp
  from todo_items_subseq_comments [of ?t] show ?thesis
    unfolding c t by simp
qed


text \<open>
  C1, as stated, fails: the function check is an \<open>if\<close> of its own and runs on a comment
  line too. The line \<open># def foo\<close> is a comment and also adds \<open>foo\<close> to the functions.
\<close>

theorem comment_line_also_function_counterexample:
  "is_comment (strip ''# def foo'')
   \<and> comments (extract_code_context ''# def foo'') = [''def foo'']
   \<and> functions_ctx (extract_code_context ''# def foo'') = [''foo'']"
  by code_simp

text \<open>
  C1, amended. For every input text, a line that matched as a comment adds nothing to
  the variables: they come from the stripped lines that are not comments. The function
  check is not exclusive of the comment check: the functions come from every stripped
  line, comment lines included.
\<close>

theorem comment_lines_add_no_variable:
  "variables (extract_code_context text) =
     List.map_filter var_match (filter (\<lambda>l. \<not> is_comment l) (map strip (split_nl text)))
   \<and> functions_ctx (extract_code_context text) =
     List.map_filter func_match (map strip (split_nl text))
   \<and> comments (extract_code_context text) =
     map sub_marker (filter is_comment (map strip (split_nl text)))"
proof -
  have "variables (extract_code_context text) =
          List.map_filter var_match (map strip (split_nl text))"
    by (simp add: extract_code_context_def variables_fold empty_context_def)
  then have "variables (extract_code_context text) =
     List.map_filter var_match (filter (\<lambda>l. \<not> is_comment l) (map strip (split_nl text)))"
    using map_filter_var_match_skip_comments [of "map strip (split_nl text)"] by simp
  moreover have "functions_ctx (extract_code_context text) =
     List.map_filter func_match (map strip (split_nl text))"
    by (simp add: extract_code_context_def functions_fold empty_context_def)
  moreover have "comments (extract_code_context text) =
     map sub_marker (filter is_comment (map strip (split_nl text)))"
    by (simp add: extract_code_context_def comments_fold empty_context_def)
  ultimately show ?thesis by simp
qed

theorem comment_lines_add_no_variable_witness:
  "variables (extract_code_context (''# x = def foo'' @ [CHR 0x0A] @ ''y = 2'')) = [''y'']
   \<and> functions_ctx (extract_code_context (''# x = def foo'' @ [CHR 0x0A] @ ''y = 2'')) = [''foo'']
   \<and> comments (extract_code_context (''# x = def foo'' @ [CHR 0x0A] @ ''y = 2'')) = [''x = def foo'']"
proof -
  let ?t = "''# x = def foo'' @ [CHR 0x0A] @ ''y = 2''"
  have a: "List.map_filter var_match (filter (\<lambda>l. \<not> is_comment l) (map strip (split_nl ?t))) = [''y'']"
    by code_simp
  have b: "List.map_filter func_match (map strip (split_nl ?t)) = [''foo'']"
    by code_simp
  have c: "map sub_marker (filter is_comment (map strip (split_nl ?t))) = [''x = def foo'']"
    by code_simp
  from comment_lines_add_no_variable [of ?t] show ?thesis
    unfolding a b c .
qed

text \<open>
  C3, as stated, fails: every line is stripped before the three checks, so the
  indented line \<open>    a = 5\<close> adds \<open>a\<close> to the variables.
\<close>

theorem indented_assignment_counterexample:
  "variables (extract_code_context ''    a = 5'') = [''a'']"
  by code_simp

text \<open>
  C3, amended. Variable detection is anchored at column zero of the stripped line, not
  of the input line: the variables are the matches of the pattern on the stripped lines;
  the pattern matches exactly the lines that start with a non-empty run of word
  characters, then whitespace, then \<open>=\<close>; and an assignment indented by any whitespace
  is detected.
\<close>

theorem variables_detected_on_stripped_lines:
  "variables (extract_code_context text) = List.map_filter var_match (map strip (split_nl text))
   \<and> (var_match l = Some v) =
       (v \<noteq> [] \<and> list_all isword v \<and>
        (\<exists>ws rest. list_all isspace ws \<and> l = v @ ws @ CHR ''='' # rest))
   \<and> (list_all isspace indent \<and> u \<noteq> [] \<and> list_all isword u \<and> list_all isspace sp \<and>
        CHR 0x0A \<notin> set (indent @ u @ sp @ CHR ''='' # rhs)
       \<longrightarrow> variables (extract_code_context (indent @ u @ sp @ CHR ''='' # rhs)) = [u])"
proof -
  have whole: "\<And>t. variables (extract_code_context t) =
                 List.map_filter var_match (map strip (split_nl t))"
    by (simp add: extract_code_context_def variables_fold empty_context_def)
  have iff: "(var_match l = Some v) =
       (v \<noteq> [] \<and> list_all isword v \<and>
        (\<exists>ws rest. list_all isspace ws \<and> l = v @ ws @ CHR ''='' # rest))"
    using var_match_elim [of l v] var_match_intro [of v] by blast
  have ind: "variables (extract_code_context (indent @ u @ sp @ CHR ''='' # rhs)) = [u]"
    if h: "list_all isspace indent" "u \<noteq> []" "list_all isword u" "list_all isspace sp"
      "CHR 0x0A \<notin> set (indent @ u @ sp @ CHR ''='' # rhs)"
  proof -
    let ?mid = "u @ sp @ ''=''"
    have hd: "\<not> isspace (hd ?mid)"
      using h(2,3) isspace_not_isword by (cases u) auto
    have "\<exists>post'. strip (?mid @ rhs) = ?mid @ post'"
      by (rule strip_keep_front) (use hd in \<open>simp_all add: not_isspace_eq\<close>)
    then obtain post' where "strip (u @ sp @ CHR ''='' # rhs) = u @ sp @ CHR ''='' # post'"
      by auto
    then have "strip (indent @ u @ sp @ CHR ''='' # rhs) = u @ sp @ CHR ''='' # post'"
      using h(1) by (simp add: strip_indent)
    then have "var_match (strip (indent @ u @ sp @ CHR ''='' # rhs)) = Some u"
      using h(2-4) by (simp add: var_match_intro)
    then show ?thesis
      using h(5) by (simp add: whole split_nl_single)
  qed
  from whole iff ind show ?thesis by blast
qed

theorem variables_detected_on_stripped_lines_witness:
  "variables (extract_code_context ([CHR 0x09] @ '' '' @ ''total'' @ '' '' @ CHR ''='' # '' 5 '')) = [''total'']"
proof -
  have "list_all isspace ([CHR 0x09] @ '' '') \<and> ''total'' \<noteq> [] \<and> list_all isword ''total'' \<and>
        list_all isspace '' '' \<and>
        CHR 0x0A \<notin> set (([CHR 0x09] @ '' '') @ ''total'' @ '' '' @ CHR ''='' # '' 5 '')"
    by (simp add: isspace_def isword_def)
  with variables_detected_on_stripped_lines
         [of "[]" "[]" "[]" "[CHR 0x09] @ '' ''" "''total''" "'' ''" "'' 5 ''"]
  show ?thesis by simp
qed

text \<open>
  C9. A line that, once stripped, starts with an identifier followed (after optional
  whitespace, as in \<open>x == 5\<close>) by \<open>==\<close> has that identifier captured as a variable:
  the pattern matches the first \<open>=\<close> of the comparison.
\<close>

theorem equality_comparison_captured:
  assumes "line \<in> set (split_nl text)" and "strip line = ident @ ws @ ''=='' @ rest"
    and "ident \<noteq> []" and "list_all isword ident" and "list_all isspace ws"
  shows "var_match (strip line) = Some ident
         \<and> ident \<in> set (variables (extract_code_context text))"
proof -
  have m: "var_match (strip line) = Some ident"
    using var_match_intro [of ident ws "CHR ''='' # rest"] assms(2-5) by simp
  have "variables (extract_code_context text) =
          List.map_filter (var_match \<circ> strip) (split_nl text)"
    by (simp add: extract_code_context_def variables_fold empty_context_def
        List.map_filter_def filter_map comp_def)
  moreover have "ident \<in> set (List.map_filter (var_match \<circ> strip) (split_nl text))"
    by (rule map_filter_member [OF assms(1)]) (simp add: m)
  ultimately show ?thesis using m by simp
qed

theorem equality_comparison_captured_witness:
  "var_match (strip ''x == 5'') = Some ''x''
   \<and> ''x'' \<in> set (variables (extract_code_context (''if True:'' @ [CHR 0x0A] @ ''x == 5'')))
   \<and> variables (extract_code_context ''x == 5'') = [''x'']"
proof -
  have a: "''x == 5'' \<in> set (split_nl (''if True:'' @ [CHR 0x0A] @ ''x == 5''))"
    by simp
  have b: "strip ''x == 5'' = ''x'' @ '' '' @ ''=='' @ '' 5''"
    by (simp add: strip_def isspace_def)
  have c: "list_all isword ''x''"
    by (simp add: isword_def)
  have d: "variables (extract_code_context ''x == 5'') = [''x'']"
    by code_simp
  have e: "''x'' \<noteq> []"
    by simp
  have f: "list_all isspace '' ''"
    by (simp add: isspace_def)
  from equality_comparison_captured [OF a b e c f] d show ?thesis
    by blast
qed


text \<open>
  C8. Whenever \<open>def\<close>, at least one whitespace character and an identifier occur
  anywhere in a line of the input (in a comment, in a string literal such as
  \<open>s = "def helper"\<close>, at the end of a longer word), the function pattern matches the
  stripped line and an identifier from that line is appended to the functions.
\<close>

theorem def_anywhere_is_a_function:
  assumes "line \<in> set (split_nl text)"
    and "line = pre @ ''def'' @ ws @ ident @ post"
    and "ws \<noteq> []" and "list_all isspace ws"
    and "ident \<noteq> []" and "list_all isword ident"
  shows "\<exists>name. func_match (strip line) = Some name \<and> name \<noteq> [] \<and> list_all isword name
           \<and> name \<in> set (functions_ctx (extract_code_context text))"
proof -
  let ?mid = "''def'' @ ws @ ident"
  have "last ?mid = last ident" using assms(5) by simp
  moreover have "isword (last ident)"
    using assms(5,6) by (simp add: list_all_iff)
  ultimately have l: "\<not> isspace (last ?mid)"
    using isspace_not_isword by auto
  have h: "\<not> isspace (hd ?mid)" by (simp add: isspace_def)
  have "\<exists>pre' post'. strip (pre @ ?mid @ post) = pre' @ ?mid @ post'"
    by (rule strip_keep [OF _ h l]) simp
  then obtain pre' post' where "strip line = pre' @ ''def'' @ ws @ ident @ post'"
    using assms(2) by auto
  with func_match_intro [OF assms(3-6), of pre' post']
  obtain name where m: "func_match (strip line) = Some name" by auto
  have "functions_ctx (extract_code_context text) =
          List.map_filter (func_match \<circ> strip) (split_nl text)"
    by (simp add: extract_code_context_def functions_fold empty_context_def
        List.map_filter_def filter_map comp_def)
  moreover have "name \<in> set (List.map_filter (func_match \<circ> strip) (split_nl text))"
    by (rule map_filter_member [OF assms(1)]) (simp add: m)
  ultimately show ?thesis
    using m func_match_Some [OF m] by auto
qed

theorem def_anywhere_is_a_function_witness:
  \<open>(\<exists>name. func_match (strip ''s = "def helper"'') = Some name \<and> name \<noteq> []
       \<and> list_all isword name
       \<and> name \<in> set (functions_ctx (extract_code_context ''s = "def helper"'')))
   \<and> functions_ctx (extract_code_context ''s = "def helper"'') = [''helper'']
   \<and> functions_ctx (extract_code_context ''# undef   names'') = [''names'']\<close>
proof -
  have a: \<open>''s = "def helper"'' \<in> set (split_nl ''s = "def helper"'')\<close>
    by simp
  have b: \<open>''s = "def helper"'' = ''s = "'' @ ''def'' @ '' '' @ ''helper'' @ ''"''\<close>
    by simp
  have c: "'' '' \<noteq> []" "list_all isspace '' ''" "''helper'' \<noteq> []" "list_all isword ''helper''"
    by (simp_all add: isspace_def isword_def)
  have d: \<open>functions_ctx (extract_code_context ''s = "def helper"'') = [''helper'']\<close>
    by code_simp
  have e: "functions_ctx (extract_code_context ''# undef   names'') = [''names'']"
    by code_simp
  from def_anywhere_is_a_function [OF a b c] d e show ?thesis
    by blast
qed


text \<open>
  C10. The variables keep one entry per matching line, duplicates included, and short
  names are counted per entry: when more than two lines assign the same name of length
  at most 2, that name occurs more than twice in the variables, more than two short
  names are counted, and the recommendation listing the first three short names is
  appended to the technical recommendations. In the example the three listed names are
  the same one.
\<close>

theorem repeated_short_name_fires:
  assumes "length v \<le> 2"
    and "2 < length (filter (\<lambda>l. var_match (strip l) = Some v) (split_nl text))"
  shows "2 < count_list (variables (extract_code_context text)) v
         \<and> 2 < length (short_vars (extract_code_context text))
         \<and> technical_recommendations
              (generate_personalized_feedback (extract_code_context text) analysis commit_msg)
            = technical_recommendations (rule_bad_words (extract_code_context text) empty_feedback)
              @ [msg_longer_names (short_vars (extract_code_context text))]"
proof -
  let ?ctx = "extract_code_context text"
  have "variables ?ctx = List.map_filter (var_match \<circ> strip) (split_nl text)"
    by (simp add: extract_code_context_def variables_fold empty_context_def
        List.map_filter_def filter_map comp_def)
  then have c: "count_list (variables ?ctx) v =
                  length (filter (\<lambda>l. var_match (strip l) = Some v) (split_nl text))"
    by (simp add: count_list_map_filter)
  with assms(2) have c2: "2 < count_list (variables ?ctx) v" by simp
  have "count_list (variables ?ctx) v \<le> length (short_vars ?ctx)"
    unfolding short_vars_def using assms(1) by (rule count_list_le_filter)
  with c2 have s: "2 < length (short_vars ?ctx)" by simp
  then have ne: "variables ?ctx \<noteq> []"
    by (auto simp: short_vars_def)
  have "technical_recommendations (generate_personalized_feedback ?ctx analysis commit_msg)
        = technical_recommendations (rule_bad_words ?ctx empty_feedback)
          @ [msg_longer_names (short_vars ?ctx)]"
    using s ne
    by (simp add: generate_personalized_feedback_def rule_short_vars_def rule_bad_words_def
        rule_todo_def rule_no_comments_def rule_emotion_def empty_feedback_def Let_def)
  with c2 s show ?thesis by simp
qed


theorem repeated_short_name_fires_witness:
  "2 < count_list (variables (extract_code_context
         (''x = 1'' @ [CHR 0x0A] @ ''x = 2'' @ [CHR 0x0A] @ ''  x=3'' @ [CHR 0x0A] @ ''y = 4''))) ''x''
   \<and> short_vars (extract_code_context
         (''x = 1'' @ [CHR 0x0A] @ ''x = 2'' @ [CHR 0x0A] @ ''  x=3'' @ [CHR 0x0A] @ ''y = 4''))
       = [''x'', ''x'', ''x'', ''y'']
   \<and> technical_recommendations
         (generate_personalized_feedback
            (extract_code_context
               (''x = 1'' @ [CHR 0x0A] @ ''x = 2'' @ [CHR 0x0A] @ ''  x=3'' @ [CHR 0x0A] @ ''y = 4''))
            [] [])
       = ['' Try to use longer names for variables like: x, x, x'']"
proof -
  let ?t = "''x = 1'' @ [CHR 0x0A] @ ''x = 2'' @ [CHR 0x0A] @ ''  x=3'' @ [CHR 0x0A] @ ''y = 4''"
  have a: "length ''x'' \<le> 2" by simp
  have b: "2 < length (filter (\<lambda>l. var_match (strip l) = Some ''x'') (split_nl ?t))"
    by code_simp
  have c: "short_vars (extract_code_context ?t) = [''x'', ''x'', ''x'', ''y'']"
    by code_simp
  have d: "technical_recommendations (rule_bad_words (extract_code_context ?t) empty_feedback) = []"
    by code_simp
  have e: "msg_longer_names [''x'', ''x'', ''x'', ''y'']
             = '' Try to use longer names for variables like: x, x, x''"
    by code_simp
  from repeated_short_name_fires [OF a b, of "[]" "[]"] show ?thesis
    unfolding c d e by simp
qed

text \<open>
  C6. The emotional insight is chosen by the emotion label alone: \<open>anger\<close> or
  \<open>frustration\<close> gives exactly the sympathetic insight, and one motivational note;
  \<open>joy\<close> exactly the encouraging insight; \<open>sadness\<close> exactly the supportive insight;
  any other label gives no insight. The three insights are different strings, and only
  \<open>anger\<close> and \<open>frustration\<close> give a motivational note.
\<close>

theorem emotional_insight_by_label:
  "emotional_insights (generate_personalized_feedback ctx analysis commit_msg) =
     (if dict_get analysis ''emotion'' (Str ''neutral'') = Str ''anger''
         \<or> dict_get analysis ''emotion'' (Str ''neutral'') = Str ''frustration''
      then [msg_annoyed]
      else if dict_get analysis ''emotion'' (Str ''neutral'') = Str ''joy'' then [msg_good_vibe]
      else if dict_get analysis ''emotion'' (Str ''neutral'') = Str ''sadness'' then [msg_hard_time]
      else [])
   \<and> motivational_notes (generate_personalized_feedback ctx analysis commit_msg) =
     (if dict_get analysis ''emotion'' (Str ''neutral'') = Str ''anger''
         \<or> dict_get analysis ''emotion'' (Str ''neutral'') = Str ''frustration''
      then [msg_getting_there]
      else [])
   \<and> distinct [msg_annoyed, msg_good_vibe, msg_hard_time]"
proof -
  have other: "\<And>fb. emotional_insights (rule_short_vars ctx (rule_bad_words ctx
                  (rule_todo ctx (rule_no_comments ctx fb)))) = emotional_insights fb
               \<and> motivational_notes (rule_short_vars ctx (rule_bad_words ctx
                  (rule_todo ctx (rule_no_comments ctx fb)))) = motivational_notes fb"
    by (simp add: rule_short_vars_def rule_bad_words_def rule_todo_def rule_no_comments_def)
  have d: "distinct [msg_annoyed, msg_good_vibe, msg_hard_time]"
    by (simp add: msg_annoyed_def msg_good_vibe_def msg_hard_time_def)
  have e: "emotional_insights (generate_personalized_feedback ctx analysis commit_msg) =
     (if dict_get analysis ''emotion'' (Str ''neutral'') = Str ''anger''
         \<or> dict_get analysis ''emotion'' (Str ''neutral'') = Str ''frustration''
      then [msg_annoyed]
      else if dict_get analysis ''emotion'' (Str ''neutral'') = Str ''joy'' then [msg_good_vibe]
      else if dict_get analysis ''emotion'' (Str ''neutral'') = Str ''sadness'' then [msg_hard_time]
      else [])"
    by (simp add: generate_personalized_feedback_def Let_def other)
       (simp add: rule_emotion_def empty_feedback_def)
  have m: "motivational_notes (generate_personalized_feedback ctx analysis commit_msg) =
     (if dict_get analysis ''emotion'' (Str ''neutral'') = Str ''anger''
         \<or> dict_get analysis ''emotion'' (Str ''neutral'') = Str ''frustration''
      then [msg_getting_there]
      else [])"
    by (simp add: generate_personalized_feedback_def Let_def other)
       (simp add: rule_emotion_def empty_feedback_def)
  from e m d show ?thesis by (intro conjI)
qed

theorem emotional_insight_by_label_witness:
  "emotional_insights (generate_personalized_feedback empty_context
       [(''emotion'', Str ''frustration'')] []) = [msg_annoyed]
   \<and> motivational_notes (generate_personalized_feedback empty_context
       [(''emotion'', Str ''frustration'')] []) = [msg_getting_there]
   \<and> emotional_insights (generate_personalized_feedback empty_context
       [(''emotion'', Str ''joy'')] []) = [msg_good_vibe]
   \<and> motivational_notes (generate_personalized_feedback empty_context
       [(''emotion'', Str ''joy'')] []) = []
   \<and> emotional_insights (generate_personalized_feedback empty_context
       [(''emotion'', Str ''sadness'')] []) = [msg_hard_time]
   \<and> emotional_insights (generate_personalized_feedback empty_context
       [(''emotion'', Str ''fear'')] []) = []
   \<and> emotional_insights (generate_personalized_feedback empty_context neutral_default []) = []"
  using emotional_insight_by_label [of empty_context "[(''emotion'', Str ''frustration'')]" "[]"]
    emotional_insight_by_label [of empty_context "[(''emotion'', Str ''joy'')]" "[]"]
    emotional_insight_by_label [of empty_context "[(''emotion'', Str ''sadness'')]" "[]"]
    emotional_insight_by_label [of empty_context "[(''emotion'', Str ''fear'')]" "[]"]
    emotional_insight_by_label [of empty_context neutral_default "[]"]
  by (simp add: dict_get_def neutral_default_def)


text \<open>
  C2, as stated, fails: the guard looks at the list of text elements, not at the
  combined text. The input \<open>#\<close> with no commit message gives the list with one empty
  comment; its combined text is the empty string, both models are called with it and
  the result is what they answer.
\<close>

theorem empty_combined_text_counterexample:
  "text_for_analysis (extract_code_context ''#'') [] = [[]]
   \<and> join '' '' [[]] = []
   \<and> analyze_developer_emotion utf8_stdout says_joy says_positive [[]] =
       ([Emotion_model [], Sentiment_model []],
        Inr [(''emotion'', Str ''joy''), (''emotion_confidence'', Float 0.9),
             (''sentiment'', Str ''positive''), (''sentiment_confidence'', Float 0.8)])"
proof -
  have a: "text_for_analysis (extract_code_context ''#'') [] = [[]]"
    by code_simp
  have b: "lower ''joy'' = ''joy''" "lower ''POSITIVE'' = ''positive''"
    by code_simp+
  have c: "analyze_developer_emotion utf8_stdout says_joy says_positive [[]] =
       ([Emotion_model [], Sentiment_model []],
        Inr [(''emotion'', Str ''joy''), (''emotion_confidence'', Float 0.9),
             (''sentiment'', Str ''positive''), (''sentiment_confidence'', Float 0.8)])"
    by (simp add: analyze_developer_emotion_def says_joy_def says_positive_def first_def b)
  from a c show ?thesis by simp
qed

text \<open>
  C2, amended. If the list of text elements is empty, the neutral default is returned
  and neither model is called. Nothing happens exactly when the list is empty: for a
  non-empty list the emotion model is called first, with the elements joined by single
  spaces, whatever that text is.
\<close>

theorem no_text_elements_neutral_default:
  "analyze_developer_emotion stdout emotion_classifier sentiment_analyzer []
     = ([], Inr neutral_default)
   \<and> (fst (analyze_developer_emotion stdout emotion_classifier sentiment_analyzer
             text_elements) = [])
       = (text_elements = [])
   \<and> (text_elements \<noteq> [] \<longrightarrow>
        hd (fst (analyze_developer_emotion stdout emotion_classifier sentiment_analyzer
                   text_elements))
          = Emotion_model (join '' '' text_elements))"
  by (auto simp: analyze_developer_emotion_def except_Exception_def Let_def
      split: sum.splits pyexn.splits option.splits)

theorem no_text_elements_neutral_default_witness:
  "analyze_developer_emotion ascii_stdout says_joy says_positive [] =
     ([], Inr [(''emotion'', Str ''neutral''), (''sentiment'', Str ''neutral''),
               (''confidence'', Float 0.5)])
   \<and> hd (fst (analyze_developer_emotion ascii_stdout says_joy says_positive [''fix'', ''me'']))
       = Emotion_model ''fix me''"
  using no_text_elements_neutral_default
          [of ascii_stdout says_joy says_positive "[''fix'', ''me'']"]
  by (simp add: neutral_default_def)




text \<open>
  C7. \<open>review_code\<close> prints its greeting and then classifies exactly the extracted
  comments followed by the commit message when that is non-empty, and exactly the
  extracted comments when it is empty. When a report is returned, its emotion analysis
  is the classifier's result and its metrics are the lengths of the comments, of the
  functions and of the TODO items. When the greeting cannot be printed, nothing is
  classified and the exception of the \<open>print\<close> is the result.
\<close>

theorem review_code_classifier_input_and_metrics:
  "text_for_analysis (extract_code_context code_text) commit_message
     = (if commit_message = [] then comments (extract_code_context code_text)
        else comments (extract_code_context code_text) @ [commit_message])
   \<and> review_code stdout emotion_classifier sentiment_analyzer now code_text commit_message
         developer_name
     = (case stdout ([CHR 0x0A] @ '' Looking at code for '' @ developer_name @ ''...'') of
          Some e \<Rightarrow> ([], Inl e)
        | None \<Rightarrow>
           (let ctx = extract_code_context code_text;
                (evs, res) = analyze_developer_emotion stdout emotion_classifier
                               sentiment_analyzer (text_for_analysis ctx commit_message)
            in (Print ([CHR 0x0A] @ '' Looking at code for '' @ developer_name @ ''...'')
                  # evs,
                map_sum id
                  (\<lambda>analysis.
                     \<lparr>developer = developer_name, timestamp = now,
                      emotion_analysis = analysis,
                      code_metrics =
                        \<lparr>comments_count = length (comments ctx),
                         functions_count = length (functions_ctx ctx),
                         todo_count = length (todo_items ctx)\<rparr>,
                      feedback =
                        generate_personalized_feedback ctx analysis commit_message\<rparr>)
                  res)))
   \<and> fst (review_code stdout emotion_classifier sentiment_analyzer now code_text
            commit_message developer_name)
     = (case stdout ([CHR 0x0A] @ '' Looking at code for '' @ developer_name @ ''...'') of
          Some e \<Rightarrow> []
        | None \<Rightarrow>
           Print ([CHR 0x0A] @ '' Looking at code for '' @ developer_name @ ''...'')
           # fst (analyze_developer_emotion stdout emotion_classifier sentiment_analyzer
                    (if commit_message = [] then comments (extract_code_context code_text)
                     else comments (extract_code_context code_text) @ [commit_message])))
   \<and> (case snd (review_code stdout emotion_classifier sentiment_analyzer now code_text
                  commit_message developer_name) of
        Inl e \<Rightarrow>
          stdout ([CHR 0x0A] @ '' Looking at code for '' @ developer_name @ ''...'') = Some e
          \<or> snd (analyze_developer_emotion stdout emotion_classifier sentiment_analyzer
                 (if commit_message = [] then comments (extract_code_context code_text)
                  else comments (extract_code_context code_text) @ [commit_message])) = Inl e
      | Inr r \<Rightarrow>
          stdout ([CHR 0x0A] @ '' Looking at code for '' @ developer_name @ ''...'') = None
          \<and> snd (analyze_developer_emotion stdout emotion_classifier sentiment_analyzer
                 (if commit_message = [] then comments (extract_code_context code_text)
                  else comments (extract_code_context code_text) @ [commit_message]))
            = Inr (emotion_analysis r)
          \<and> code_metrics r =
              \<lparr>comments_count = length (comments (extract_code_context code_text)),
               functions_count = length (functions_ctx (extract_code_context code_text)),
               todo_count = length (todo_items (extract_code_context code_text))\<rparr>)"
  by (simp add: review_code_def text_for_analysis_def Let_def
      split: prod.splits sum.splits option.splits)

theorem review_code_classifier_input_and_metrics_witness:
  "fst (review_code utf8_stdout says_joy says_positive ''2025''
          (''# one'' @ [CHR 0x0A] @ ''def f(): # TODO'') ''wip'' ''Dev'')
     = [Print ([CHR 0x0A] @ '' Looking at code for Dev...''),
        Emotion_model ''one wip'', Sentiment_model ''one wip'']
   \<and> fst (review_code utf8_stdout says_joy says_positive ''2025''
          (''# one'' @ [CHR 0x0A] @ ''def f(): # TODO'') [] ''Dev'')
     = [Print ([CHR 0x0A] @ '' Looking at code for Dev...''),
        Emotion_model ''one'', Sentiment_model ''one'']
   \<and> (case snd (review_code utf8_stdout says_joy says_positive ''2025''
                  (''# one'' @ [CHR 0x0A] @ ''def f(): # TODO'') [] ''Dev'') of
        Inl e \<Rightarrow> False
      | Inr r \<Rightarrow> code_metrics r = \<lparr>comments_count = 1, functions_count = 1, todo_count = 0\<rparr>)"
proof -
  let ?c = "''# one'' @ [CHR 0x0A] @ ''def f(): # TODO''"
  have a: "comments (extract_code_context ?c) = [''one'']"
    "functions_ctx (extract_code_context ?c) = [''f'']"
    "todo_items (extract_code_context ?c) = []"
    by code_simp+
  have s: "\<exists>d. snd (analyze_developer_emotion utf8_stdout says_joy says_positive [''one''])
             = Inr d"
    by (simp add: analyze_developer_emotion_def says_joy_def says_positive_def first_def
        Let_def)
  have b: "fst (analyze_developer_emotion utf8_stdout says_joy says_positive [''one'', ''wip''])
            = [Emotion_model ''one wip'', Sentiment_model ''one wip'']"
    "fst (analyze_developer_emotion utf8_stdout says_joy says_positive [''one''])
            = [Emotion_model ''one'', Sentiment_model ''one'']"
    by (simp_all add: analyze_developer_emotion_def says_joy_def says_positive_def first_def
        Let_def)
  have u: "\<And>s. utf8_stdout s = None"
    by (simp add: utf8_stdout_def)
  from review_code_classifier_input_and_metrics
         [where stdout = utf8_stdout and emotion_classifier = says_joy
            and sentiment_analyzer = says_positive
            and now = "''2025''" and code_text = ?c and commit_message = "''wip''"
            and developer_name = "''Dev''"]
    review_code_classifier_input_and_metrics
         [where stdout = utf8_stdout and emotion_classifier = says_joy
            and sentiment_analyzer = says_positive
            and now = "''2025''" and code_text = ?c and commit_message = "[]"
            and developer_name = "''Dev''"]
  show ?thesis
    unfolding a using s by (auto simp: b u split: sum.splits)
qed

end
